theory Spec2Isabelle
  imports Main "HOL-Library.Word"
begin

section \<open>Instants, durations and weekdays\<close>

text \<open>
  A \<open>time.Time\<close> is modelled as the number of nanoseconds since the Unix epoch, read in
  UTC (the zone the program documents for its defaults); a \<open>time.Duration\<close> is a signed
  64-bit count of nanoseconds, so the product \<open>time.Hour * time.Duration(n)\<close> wraps.
  A Go \<open>error\<close> is modelled by the message it carries.
\<close>

type_synonym instant = int
type_synonym error = string

definition Hour :: int where
  "Hour = 3600000000000"

definition Day :: int where
  "Day = 24 * Hour"

definition Duration_mul :: "int \<Rightarrow> int \<Rightarrow> int" where
  "Duration_mul a b = sint (word_of_int a * word_of_int b :: 64 word)"

definition time_Add :: "instant \<Rightarrow> int \<Rightarrow> instant" where
  "time_Add t d = t + d"

definition time_Before :: "instant \<Rightarrow> instant \<Rightarrow> bool" where
  "time_Before t u = (t < u)"

definition time_After :: "instant \<Rightarrow> instant \<Rightarrow> bool" where
  "time_After t u = (u < t)"

datatype weekday = Sunday | Monday | Tuesday | Wednesday | Thursday | Friday | Saturday

fun weekday_index :: "weekday \<Rightarrow> int" where
  "weekday_index Sunday = 0"
| "weekday_index Monday = 1"
| "weekday_index Tuesday = 2"
| "weekday_index Wednesday = 3"
| "weekday_index Thursday = 4"
| "weekday_index Friday = 5"
| "weekday_index Saturday = 6"

fun weekday_name :: "weekday \<Rightarrow> string" where
  "weekday_name Sunday = ''Sunday''"
| "weekday_name Monday = ''Monday''"
| "weekday_name Tuesday = ''Tuesday''"
| "weekday_name Wednesday = ''Wednesday''"
| "weekday_name Thursday = ''Thursday''"
| "weekday_name Friday = ''Friday''"
| "weekday_name Saturday = ''Saturday''"

text \<open>Day 0 of the epoch (1 January 1970) was a Thursday.\<close>

definition Weekday :: "instant \<Rightarrow> int" where
  "Weekday t = (t div Day + 4) mod 7"

definition truncateDay :: "instant \<Rightarrow> instant" where
  "truncateDay t = t - t mod Day"

text \<open>An instant given by its day number since the epoch, hour and minute.\<close>

definition at_clock :: "int \<Rightarrow> int \<Rightarrow> int \<Rightarrow> instant" where
  "at_clock day h m = day * Day + h * Hour + m * 60000000000"

section \<open>Decimal conversions of \<open>strconv\<close>\<close>

definition is_digit :: "char \<Rightarrow> bool" where
  "is_digit c = (48 \<le> (of_char c :: nat) \<and> (of_char c :: nat) \<le> 57)"

definition digit_val :: "char \<Rightarrow> int" where
  "digit_val c = of_char c - 48"

definition digits_val :: "string \<Rightarrow> int" where
  "digits_val s = foldl (\<lambda>n c. 10 * n + digit_val c) 0 s"

fun digits_of :: "nat \<Rightarrow> string" where
  "digits_of n =
     (if n < 10 then [char_of (48 + n)]
      else digits_of (n div 10) @ [char_of (48 + n mod 10)])"

declare digits_of.simps [simp del]

text \<open>\<open>strconv.Itoa\<close>: the decimal text of an integer, with a minus sign when negative.\<close>

definition Itoa :: "int \<Rightarrow> string" where
  "Itoa i = (if i < 0 then CHR ''-'' # digits_of (nat (- i)) else digits_of (nat i))"

text \<open>
  \<open>strconv.Atoi\<close> with its error result dropped, as both call sites do
  (\<open>workDayStart, _ := strconv.Atoi(...)\<close>): an optional sign followed by at least one
  decimal digit; the value is 0 on a syntax error, and is clamped to the 64-bit range
  on a range error.
\<close>

definition Atoi_value :: "string \<Rightarrow> int" where
  "Atoi_value s =
     (let neg = (s \<noteq> [] \<and> hd s = CHR ''-'');
          body = (if s \<noteq> [] \<and> (hd s = CHR ''-'' \<or> hd s = CHR ''+'') then tl s else s)
      in if body = [] \<or> \<not> list_all is_digit body then 0
         else if neg then max (- 9223372036854775808) (- digits_val body)
         else min 9223372036854775807 (digits_val body))"

section \<open>The date-expression parser\<close>

text \<open>
  Modelled from the spec: \<open>naturaldate.Parse\<close> of the third-party package
  \<open>github.com/tj/go-naturaldate\<close>, whose code is not among the repository's sources.
  The spec gives the three kinds of expression the program passes to it:
  \<open>last <weekday>\<close> is the most recent occurrence of that weekday at midnight,
  \<open>next <weekday>\<close> is its next occurrence at midnight (in both the current day itself
  does not count: the occurrence lies on an earlier, respectively a later, day), and a
  bare hour number from 0 to 23 is the current day at that hour. Any other expression
  fails with a resolution error, whose message is taken to be the expression. Weekday
  names are read without regard to letter case. All definitions of this section are
  part of that model.
\<close>

definition ToLower :: "string \<Rightarrow> string" where
  "ToLower s =
     map (\<lambda>c. if 65 \<le> (of_char c :: nat) \<and> (of_char c :: nat) \<le> 90
              then char_of ((of_char c :: nat) + 32) else c) s"

definition weekday_named :: "string \<Rightarrow> weekday option" where
  "weekday_named s =
     map_of [(''sunday'', Sunday), (''monday'', Monday), (''tuesday'', Tuesday),
             (''wednesday'', Wednesday), (''thursday'', Thursday), (''friday'', Friday),
             (''saturday'', Saturday)] s"

definition lastWeekday :: "weekday \<Rightarrow> instant \<Rightarrow> instant" where
  "lastWeekday d ref =
     (let k = (Weekday ref - weekday_index d) mod 7
      in truncateDay ref - (if k = 0 then 7 else k) * Day)"

definition nextWeekday :: "weekday \<Rightarrow> instant \<Rightarrow> instant" where
  "nextWeekday d ref =
     (let k = (weekday_index d - Weekday ref) mod 7
      in truncateDay ref + (if k = 0 then 7 else k) * Day)"

definition clock_hour :: "string \<Rightarrow> int option" where
  "clock_hour s =
     (if s \<noteq> [] \<and> list_all is_digit s \<and> digits_val s \<le> 23
      then Some (digits_val s) else None)"

text \<open>
  Modelled from the spec: the parser \<open>naturaldate.Parse\<close> itself, over the
  definitions above.
\<close>

definition naturaldate_Parse :: "string \<Rightarrow> instant \<Rightarrow> error + instant" where
  "naturaldate_Parse s ref =
     (let b = ToLower s in
      if take 5 b = ''last '' then
        (case weekday_named (drop 5 b) of
           None \<Rightarrow> Inl s
         | Some d \<Rightarrow> Inr (lastWeekday d ref))
      else if take 5 b = ''next '' then
        (case weekday_named (drop 5 b) of
           None \<Rightarrow> Inl s
         | Some d \<Rightarrow> Inr (nextWeekday d ref))
      else
        (case clock_hour b of
           None \<Rightarrow> Inl s
         | Some h \<Rightarrow> Inr (truncateDay ref + h * Hour)))"

section \<open>The business-hours evaluator\<close>

text \<open>
  The ambient state the program reads and writes: the wall clock (\<open>time.Now()\<close>), the
  process environment (\<open>os.LookupEnv\<close>, \<open>os.Getenv\<close>) and the lines printed to
  standard output.
\<close>

record world =
  clock :: instant
  environ :: "string \<rightharpoonup> string"
  stdout :: "string list"

text \<open>
  Lines 23 to 43 of \<open>isDuringBusinessHours\<close>: the four reference points
  \<open>workWeekStart\<close>, \<open>workWeekEnd\<close>, \<open>workDayStart\<close>, \<open>workDayEnd\<close>, or the first
  parse error.
\<close>

definition referencePoints ::
    "string \<Rightarrow> string \<Rightarrow> int \<Rightarrow> int \<Rightarrow> instant
       \<Rightarrow> error + (instant \<times> instant \<times> instant \<times> instant)" where
  "referencePoints weekStart weekEnd dayStart dayEnd now =
     (case naturaldate_Parse (''last '' @ weekStart) now of
        Inl err \<Rightarrow> Inl err
      | Inr t1 \<Rightarrow>
     (let workWeekStart = time_Add t1 (Duration_mul Hour dayStart) in
      case naturaldate_Parse (''next '' @ weekEnd) now of
        Inl err \<Rightarrow> Inl err
      | Inr t2 \<Rightarrow>
     (let workWeekEnd = time_Add t2 (Duration_mul Hour dayEnd) in
      case naturaldate_Parse (Itoa dayStart) now of
        Inl err \<Rightarrow> Inl err
      | Inr workDayStart \<Rightarrow>
     (case naturaldate_Parse (Itoa dayEnd) now of
        Inl err \<Rightarrow> Inl err
      | Inr workDayEnd \<Rightarrow>
          Inr (workWeekStart, workWeekEnd, workDayStart, workDayEnd)))))"

text \<open>
  \<open>isDuringBusinessHours\<close>: reads the clock once, computes the reference points and
  returns the disjunction of line 45. Go's \<open>(false, err)\<close> is \<open>Inl err\<close>, and
  \<open>(b, nil)\<close> is \<open>Inr b\<close>.
\<close>

definition isDuringBusinessHours ::
    "string \<Rightarrow> string \<Rightarrow> int \<Rightarrow> int \<Rightarrow> world \<Rightarrow> (error + bool) \<times> world" where
  "isDuringBusinessHours weekStart weekEnd dayStart dayEnd w =
     (let now = clock w in
      (case referencePoints weekStart weekEnd dayStart dayEnd now of
         Inl err \<Rightarrow> Inl err
       | Inr (workWeekStart, workWeekEnd, workDayStart, workDayEnd) \<Rightarrow>
           Inr (time_Before now workWeekStart \<or> time_After now workWeekEnd
                \<or> time_Before now workDayStart \<or> time_After now workDayEnd),
       w))"

section \<open>The HTTP response writer\<close>

text \<open>
  An \<open>http.ResponseWriter\<close>: the header map, the status code once \<open>WriteHeader\<close> has
  run (only the first call counts), and the bytes written to the body. \<open>Write\<close> sends
  status 200 first when no status was sent. \<open>http.Error\<close> is the one of Go 1.22, the
  version the module declares.
\<close>

record response =
  header :: "string \<rightharpoonup> string list"
  status :: "nat option"
  body :: string

definition Header_Add :: "string \<Rightarrow> string \<Rightarrow> response \<Rightarrow> response" where
  "Header_Add k v rw =
     rw\<lparr>header := (header rw)(k \<mapsto> (case header rw k of None \<Rightarrow> [v] | Some vs \<Rightarrow> vs @ [v]))\<rparr>"

definition Header_Set :: "string \<Rightarrow> string \<Rightarrow> response \<Rightarrow> response" where
  "Header_Set k v rw = rw\<lparr>header := (header rw)(k \<mapsto> [v])\<rparr>"

definition WriteHeader :: "nat \<Rightarrow> response \<Rightarrow> response" where
  "WriteHeader code rw = (if status rw = None then rw\<lparr>status := Some code\<rparr> else rw)"

definition Write :: "string \<Rightarrow> response \<Rightarrow> response" where
  "Write bs rw = (let rw1 = WriteHeader 200 rw in rw1\<lparr>body := body rw1 @ bs\<rparr>)"

definition http_Error :: "string \<Rightarrow> nat \<Rightarrow> response \<Rightarrow> response" where
  "http_Error msg code rw =
     Write (msg @ [CHR 0x0A])
       (WriteHeader code
         (Header_Set ''X-Content-Type-Options'' ''nosniff''
           (Header_Set ''Content-Type'' ''text/plain; charset=utf-8'' rw)))"

record request =
  form :: "string \<rightharpoonup> string"

definition FormValue :: "request \<Rightarrow> string \<Rightarrow> string" where
  "FormValue r k = (case form r k of None \<Rightarrow> [] | Some v \<Rightarrow> v)"

section \<open>External collaborators\<close>

datatype Element =
    VoiceRecord string string string string string
  | VoiceDial string
  | VoiceSay string

text \<open>
  \<open>VoiceRecord\<close> carries \<open>FinishOnKey\<close>, \<open>MaxLength\<close>, \<open>Timeout\<close>, \<open>Transcribe\<close> and
  \<open>TranscribeCallback\<close>; \<open>VoiceDial\<close> the \<open>Number\<close>; \<open>VoiceSay\<close> the \<open>Message\<close>.
  In \<open>ErrorComp\<close> the field \<open>HttpStatus\<close> is the source's \<open>Status\<close>.
\<close>

record ErrorComp =
  Detail :: string
  Code :: string
  Title :: string
  HttpStatus :: nat

record ClientParams =
  Username :: string
  Password :: string

record CreateMessageParams =
  To :: string
  From :: string
  Body :: string

text \<open>\<open>ApiV2010Message\<close>: \<open>Status\<close> is a \<open>*string\<close>, \<open>None\<close> when nil.\<close>

record ApiV2010Message =
  Status :: "string option"

text \<open>
  The libraries and services the two handlers call, taken as parameters:
  \<open>twiml.Voice\<close> returns a string and an error (\<open>None\<close> is nil);
  \<open>ErrorJSON_Error\<close> renders the collected error components as JSON
  (\<open>jsonerror.ErrorJSON.Error\<close>); \<open>CreateMessage\<close> returns a pointer to the message
  (\<open>None\<close> is nil) and an error; \<open>godotenv_Load\<close> loads the \<open>.env\<close> file into the
  environment; \<open>ListenAndServe\<close> is the error \<open>http.ListenAndServe\<close> returns, \<open>None\<close>
  while it keeps serving.
\<close>

record deps =
  Voice :: "Element list \<Rightarrow> string \<times> error option"
  ErrorJSON_Error :: "ErrorComp list \<Rightarrow> string"
  CreateMessage :: "ClientParams \<Rightarrow> CreateMessageParams \<Rightarrow> ApiV2010Message option \<times> error option"
  godotenv_Load :: "world \<Rightarrow> error option \<times> world"
  ListenAndServe :: "error option"

section \<open>The handlers\<close>

definition getEnv :: "string \<Rightarrow> string \<Rightarrow> world \<Rightarrow> string" where
  "getEnv key fallback w = (case environ w key of Some v \<Rightarrow> v | None \<Rightarrow> fallback)"

definition Getenv :: "string \<Rightarrow> world \<Rightarrow> string" where
  "Getenv key w = (case environ w key of Some v \<Rightarrow> v | None \<Rightarrow> [])"

text \<open>The verb \<open>%s\<close> of \<open>fmt.Errorf\<close> applied to an error that may be nil.\<close>

definition fmt_s :: "error option \<Rightarrow> string" where
  "fmt_s err = (case err of None \<Rightarrow> ''%!s(<nil>)'' | Some e \<Rightarrow> e)"

definition appError :: "deps \<Rightarrow> error \<Rightarrow> response \<Rightarrow> response" where
  "appError d err rw =
     http_Error
       (ErrorJSON_Error d
          [\<lparr>Detail = err, Code = Itoa 400, Title = ''Something went wrong'', HttpStatus = 400\<rparr>])
       400 rw"

definition handleCallRequest ::
    "deps \<Rightarrow> response \<Rightarrow> request \<Rightarrow> world \<Rightarrow> response \<times> world" where
  "handleCallRequest d rw r w =
     (let workWeekStart = getEnv ''WORK_WEEK_START'' ''Monday'' w;
          workWeekEnd = getEnv ''WORK_WEEK_END'' ''Friday'' w;
          workDayStart = Atoi_value (getEnv ''WORK_DAY_START'' ''8'' w);
          workDayEnd = Atoi_value (getEnv ''WORK_DAY_END'' ''18'' w)
      in case isDuringBusinessHours workWeekStart workWeekEnd workDayStart workDayEnd w of
        (Inl err, w1) \<Rightarrow>
          (appError d
             (''could not determine if current time is within business hours. reason: '' @ err)
             rw, w1)
      | (Inr duringBusinessHours, w1) \<Rightarrow>
          (let rw1 = Header_Add ''Content-Type'' ''application/xml'' rw in
           if \<not> duringBusinessHours then
             (case Voice d [VoiceRecord ''#'' ''300'' ''10'' ''true'' ''/sms''] of
                (twimlResult, err) \<Rightarrow>
                  (Write twimlResult
                     (if err = None
                      then appError d (''could not record voice call. reason: '' @ fmt_s err) rw1
                      else rw1), w1))
           else
             (case Voice d [VoiceDial (Getenv ''MY_PHONE_NUMBER'' w1),
                            VoiceSay ''Sorry, I was unable to redirect you. Goodbye.''] of
                (twimlResult, err) \<Rightarrow>
                  (Write twimlResult
                     (if err = None
                      then appError d (''could not redirect call. reason: '' @ fmt_s err) rw1
                      else rw1), w1))))"

text \<open>
  \<open>sendVoiceRecording\<close>. Dereferencing a nil \<open>resp\<close> or a nil \<open>resp.Status\<close> panics;
  the line printed for a failed \<open>CreateMessage\<close> is on standard output by then.
\<close>

datatype panic = NilPointerDereference

definition sendVoiceRecording ::
    "deps \<Rightarrow> response \<Rightarrow> request \<Rightarrow> world \<Rightarrow> (panic + response) \<times> world" where
  "sendVoiceRecording d rw r w =
     (let client = \<lparr>Username = Getenv ''TWILIO_ACCOUNT_SID'' w,
                    Password = Getenv ''TWILIO_AUTH_TOKEN'' w\<rparr>;
          params = \<lparr>To = Getenv ''MY_PHONE_NUMBER'' w, From = FormValue r ''from'',
                    Body = FormValue r ''transcription_text''\<rparr>
      in case CreateMessage d client params of
        (resp, err) \<Rightarrow>
          (let w1 = (case err of
                       None \<Rightarrow> w
                     | Some e \<Rightarrow> w\<lparr>stdout := stdout w @ [''Error sending SMS message: '' @ e]\<rparr>)
           in case resp of
             None \<Rightarrow> (Inl NilPointerDereference, w1)
           | Some m \<Rightarrow>
               (case Status m of
                  None \<Rightarrow> (Inl NilPointerDereference, w1)
                | Some st \<Rightarrow>
                    (let message =
                       (if st \<in> set [''cancelled'', ''failed'', ''undelivered'']
                        then ''Something went wrong sending the SMS with the voice recording transcript.''
                        else ''The SMS with the voice recording transcript was sent successfully.'')
                     in (Inr (Write message rw), w1)))))"



section \<open>Concrete inputs\<close>

text \<open>
  Day 4 of the epoch is Monday 5 January 1970, day 6 the Wednesday and day 9 the
  Saturday of that week. \<open>world_at t\<close> is a process with the default business-hours
  configuration (no \<open>WORK_*\<close> variable set) whose clock reads \<open>t\<close>;
  \<open>example_deps\<close> are collaborators that succeed, except that the message service
  reports an error together with a failed message.
\<close>

definition world_at :: "instant \<Rightarrow> world" where
  "world_at t = \<lparr>clock = t, environ = [''MY_PHONE_NUMBER'' \<mapsto> ''+15550100''], stdout = []\<rparr>"

definition new_response :: response where
  "new_response = \<lparr>header = Map.empty, status = None, body = []\<rparr>"

definition empty_request :: request where
  "empty_request = \<lparr>form = Map.empty\<rparr>"

fun example_verb :: "Element \<Rightarrow> string" where
  "example_verb (VoiceRecord k l t tr cb) = ''<Record/>''"
| "example_verb (VoiceDial n) = ''<Dial>'' @ n @ ''</Dial>''"
| "example_verb (VoiceSay m) = ''<Say/>''"

definition example_deps :: deps where
  "example_deps =
     \<lparr>Voice = (\<lambda>verbs. (concat (map example_verb verbs), None)),
      ErrorJSON_Error = (\<lambda>cs. concat (map Detail cs)),
      CreateMessage = (\<lambda>c p. (Some \<lparr>Status = Some ''failed''\<rparr>, Some ''timeout'')),
      godotenv_Load = (\<lambda>w. (None, w)),
      ListenAndServe = None\<rparr>"


definition broken_markup_deps :: deps where
  "broken_markup_deps = example_deps\<lparr>Voice := (\<lambda>verbs. ([], Some ''xml: unsupported''))\<rparr>"

definition no_message_deps :: deps where
  "no_message_deps = example_deps\<lparr>CreateMessage := (\<lambda>c p. (None, Some ''timeout''))\<rparr>"

section \<open>The reference points in the spec's words\<close>

text \<open>
  An occurrence of a weekday at midnight: an instant that starts a day and falls on
  that weekday.
\<close>

definition midnight_on :: "weekday \<Rightarrow> instant \<Rightarrow> bool" where
  "midnight_on d t = (t mod Day = 0 \<and> Weekday t = weekday_index d)"

section \<open>Evaluating the concrete parser\<close>

lemma Itoa_8: "Itoa 8 = ''8''"
  by code_simp

lemma Itoa_18: "Itoa 18 = ''18''"
  by code_simp

lemma Duration_mul_8: "Duration_mul Hour 8 = 8 * Hour"
  by (simp add: Duration_mul_def Hour_def)

lemma Duration_mul_18: "Duration_mul Hour 18 = 18 * Hour"
  by (simp add: Duration_mul_def Hour_def)

lemma clock_hour_8: "clock_hour ''8'' = Some 8"
  by (simp add: clock_hour_def is_digit_def digits_val_def digit_val_def)

lemma clock_hour_18: "clock_hour ''18'' = Some 18"
  by (simp add: clock_hour_def is_digit_def digits_val_def digit_val_def)

lemma ToLower_last_Monday: "ToLower ''last Monday'' = ''last monday''"
  by code_simp

lemma ToLower_next_Friday: "ToLower ''next Friday'' = ''next friday''"
  by code_simp

lemma ToLower_digits: "list_all is_digit s \<Longrightarrow> ToLower s = s"
  by (induction s) (auto simp: ToLower_def is_digit_def)

lemma Parse_last_Monday: "naturaldate_Parse ''last Monday'' ref = Inr (lastWeekday Monday ref)"
  by (simp add: naturaldate_Parse_def ToLower_last_Monday weekday_named_def)

lemma Parse_next_Friday: "naturaldate_Parse ''next Friday'' ref = Inr (nextWeekday Friday ref)"
  by (simp add: naturaldate_Parse_def ToLower_next_Friday weekday_named_def)

lemma Parse_8: "naturaldate_Parse ''8'' ref = Inr (truncateDay ref + 8 * Hour)"
  by (simp add: naturaldate_Parse_def ToLower_digits is_digit_def clock_hour_8)

lemma Parse_18: "naturaldate_Parse ''18'' ref = Inr (truncateDay ref + 18 * Hour)"
  by (simp add: naturaldate_Parse_def ToLower_digits is_digit_def clock_hour_18)

lemma referencePoints_default:
  "referencePoints ''Monday'' ''Friday'' 8 18 now =
     Inr (lastWeekday Monday now + 8 * Hour, nextWeekday Friday now + 18 * Hour,
          truncateDay now + 8 * Hour, truncateDay now + 18 * Hour)"
  using Parse_last_Monday [of now] Parse_next_Friday [of now]
  by (simp add: referencePoints_def Itoa_8 Itoa_18 Parse_8 Parse_18
      Duration_mul_8 Duration_mul_18 time_Add_def)

lemma isDuringBusinessHours_default:
  "isDuringBusinessHours ''Monday'' ''Friday'' 8 18 w =
     (Inr (clock w < lastWeekday Monday (clock w) + 8 * Hour
           \<or> nextWeekday Friday (clock w) + 18 * Hour < clock w
           \<or> clock w < truncateDay (clock w) + 8 * Hour
           \<or> truncateDay (clock w) + 18 * Hour < clock w), w)"
  by (simp add: isDuringBusinessHours_def referencePoints_default
      time_Before_def time_After_def Let_def)

lemmas calendar_defs =
  lastWeekday_def nextWeekday_def truncateDay_def Weekday_def at_clock_def Day_def Hour_def

lemma lower_initials:
  "char_of (115::nat) = CHR ''s''" "char_of (109::nat) = CHR ''m''"
  "char_of (116::nat) = CHR ''t''" "char_of (119::nat) = CHR ''w''"
  "char_of (102::nat) = CHR ''f''"
  by code_simp+

lemma Parse_last: "naturaldate_Parse (''last '' @ weekday_name d) ref = Inr (lastWeekday d ref)"
  by (cases d) (simp_all add: naturaldate_Parse_def ToLower_def weekday_named_def lower_initials)

lemma Parse_next: "naturaldate_Parse (''next '' @ weekday_name d) ref = Inr (nextWeekday d ref)"
  by (cases d) (simp_all add: naturaldate_Parse_def ToLower_def weekday_named_def lower_initials)

lemma hour_cases:
  "0 \<le> (h::int) \<Longrightarrow> h \<le> 23 \<Longrightarrow>
     h = 0 \<or> h = 1 \<or> h = 2 \<or> h = 3 \<or> h = 4 \<or> h = 5 \<or> h = 6 \<or> h = 7 \<or> h = 8 \<or> h = 9
     \<or> h = 10 \<or> h = 11 \<or> h = 12 \<or> h = 13 \<or> h = 14 \<or> h = 15 \<or> h = 16 \<or> h = 17
     \<or> h = 18 \<or> h = 19 \<or> h = 20 \<or> h = 21 \<or> h = 22 \<or> h = 23"
  by arith

lemma Itoa_hours:
  "Itoa 0 = ''0''" "Itoa 1 = ''1''" "Itoa 2 = ''2''" "Itoa 3 = ''3''" "Itoa 4 = ''4''"
  "Itoa 5 = ''5''" "Itoa 6 = ''6''" "Itoa 7 = ''7''" "Itoa 9 = ''9''"
  "Itoa 10 = ''10''" "Itoa 11 = ''11''" "Itoa 12 = ''12''" "Itoa 13 = ''13''"
  "Itoa 14 = ''14''" "Itoa 15 = ''15''" "Itoa 16 = ''16''" "Itoa 17 = ''17''"
  "Itoa 19 = ''19''" "Itoa 20 = ''20''" "Itoa 21 = ''21''" "Itoa 22 = ''22''"
  "Itoa 23 = ''23''"
  by code_simp+

lemma Itoa_400: "Itoa 400 = ''400''"
  by code_simp

lemma Parse_hour:
  assumes "0 \<le> h" "h \<le> 23"
  shows "naturaldate_Parse (Itoa h) ref = Inr (truncateDay ref + h * Hour)"
  using hour_cases [OF assms]
  by (elim disjE)
     (simp_all add: Itoa_hours Itoa_8 Itoa_18 naturaldate_Parse_def ToLower_digits
        clock_hour_def is_digit_def digits_val_def digit_val_def)

lemma Duration_mul_hour:
  assumes "0 \<le> h" "h \<le> 23"
  shows "Duration_mul Hour h = h * Hour"
  using hour_cases [OF assms]
  by (elim disjE) (simp_all add: Duration_mul_def Hour_def)

lemma referencePoints_wellformed:
  assumes "0 \<le> dayStart" "dayStart \<le> 23" "0 \<le> dayEnd" "dayEnd \<le> 23"
  shows "referencePoints (weekday_name sd) (weekday_name ed) dayStart dayEnd now =
     Inr (lastWeekday sd now + dayStart * Hour, nextWeekday ed now + dayEnd * Hour,
          truncateDay now + dayStart * Hour, truncateDay now + dayEnd * Hour)"
  unfolding referencePoints_def Parse_last Parse_next
    Parse_hour [OF assms(1,2)] Parse_hour [OF assms(3,4)]
    Duration_mul_hour [OF assms(1,2)] Duration_mul_hour [OF assms(3,4)]
  by (simp add: time_Add_def)

lemma isDuringBusinessHours_snd: "snd (isDuringBusinessHours a b c e w) = w"
  by (simp add: isDuringBusinessHours_def Let_def)

section \<open>Calendar arithmetic\<close>

lemma Day_pos: "0 < Day"
  by (simp add: Day_def Hour_def)

lemma truncateDay_eq: "truncateDay t = (t div Day) * Day"
  by (simp add: truncateDay_def minus_mod_eq_div_mult)

lemma truncateDay_bounds:
  "truncateDay t mod Day = 0 \<and> truncateDay t \<le> t \<and> t < truncateDay t + Day"
proof -
  have m: "0 \<le> t mod Day" "t mod Day < Day"
    using Day_pos by simp_all
  have "truncateDay t mod Day = 0"
    by (simp add: truncateDay_eq)
  moreover have "truncateDay t \<le> t" "t < truncateDay t + Day"
    using m by (simp_all add: truncateDay_def)
  ultimately show ?thesis by simp
qed

lemma Weekday_times_Day: "Weekday (n * Day) = (n + 4) mod 7"
  using Day_pos by (simp add: Weekday_def)

lemma weekday_index_range: "0 \<le> weekday_index d \<and> weekday_index d \<le> 6"
  by (cases d) simp_all

lemma steps_congruent:
  fixes a :: int
  shows "(if a mod 7 = 0 then 7 else a mod 7) mod 7 = a mod 7"
  by simp

text \<open>
  Going back, respectively forward, by the number of days the parser computes lands
  on the weekday asked for.
\<close>

lemma back_steps:
  fixes D i :: int
  assumes "0 \<le> i" "i \<le> 6"
  shows "(D - (if ((D + 4) mod 7 - i) mod 7 = 0 then 7 else ((D + 4) mod 7 - i) mod 7) + 4) mod 7 = i"
proof -
  let ?k = "if ((D + 4) mod 7 - i) mod 7 = 0 then 7 else ((D + 4) mod 7 - i) mod 7"
  have "(D - ?k + 4) mod 7 = ((D + 4) - ?k) mod 7"
    by (simp add: algebra_simps)
  also have "\<dots> = ((D + 4) - ?k mod 7) mod 7"
    by (rule mod_diff_right_eq [symmetric])
  also have "\<dots> = ((D + 4) - ((D + 4) mod 7 - i) mod 7) mod 7"
    by (simp only: steps_congruent)
  also have "\<dots> = ((D + 4) - ((D + 4) mod 7 - i)) mod 7"
    by (rule mod_diff_right_eq)
  also have "\<dots> = (((D + 4) - (D + 4) mod 7) + i) mod 7"
    by (simp add: algebra_simps)
  also have "\<dots> = (((D + 4) div 7) * 7 + i) mod 7"
    by (simp only: minus_mod_eq_div_mult)
  also have "\<dots> = i mod 7"
    by simp
  also have "\<dots> = i"
    using assms by simp
  finally show ?thesis .
qed

lemma forward_steps:
  fixes D i :: int
  assumes "0 \<le> i" "i \<le> 6"
  shows "(D + (if (i - (D + 4) mod 7) mod 7 = 0 then 7 else (i - (D + 4) mod 7) mod 7) + 4) mod 7 = i"
proof -
  let ?k = "if (i - (D + 4) mod 7) mod 7 = 0 then 7 else (i - (D + 4) mod 7) mod 7"
  have "(D + ?k + 4) mod 7 = ((D + 4) + ?k) mod 7"
    by (simp add: algebra_simps)
  also have "\<dots> = ((D + 4) + ?k mod 7) mod 7"
    by (rule mod_add_right_eq [symmetric])
  also have "\<dots> = ((D + 4) + (i - (D + 4) mod 7) mod 7) mod 7"
    by (simp only: steps_congruent)
  also have "\<dots> = ((D + 4) + (i - (D + 4) mod 7)) mod 7"
    by (rule mod_add_right_eq)
  also have "\<dots> = (((D + 4) - (D + 4) mod 7) + i) mod 7"
    by (simp add: algebra_simps)
  also have "\<dots> = (((D + 4) div 7) * 7 + i) mod 7"
    by (simp only: minus_mod_eq_div_mult)
  also have "\<dots> = i mod 7"
    by simp
  also have "\<dots> = i"
    using assms by simp
  finally show ?thesis .
qed

lemma lastWeekday_eq:
  "lastWeekday d t =
     (t div Day - (if ((t div Day + 4) mod 7 - weekday_index d) mod 7 = 0 then 7
                   else ((t div Day + 4) mod 7 - weekday_index d) mod 7)) * Day"
  by (simp add: lastWeekday_def truncateDay_eq Weekday_def Let_def algebra_simps)

lemma nextWeekday_eq:
  "nextWeekday d t =
     (t div Day + (if (weekday_index d - (t div Day + 4) mod 7) mod 7 = 0 then 7
                   else (weekday_index d - (t div Day + 4) mod 7) mod 7)) * Day"
  by (simp add: nextWeekday_def truncateDay_eq Weekday_def Let_def algebra_simps)

lemma lastWeekday_midnight_on: "midnight_on d (lastWeekday d t)"
proof -
  have "lastWeekday d t mod Day = 0"
    by (simp only: lastWeekday_eq mod_mult_self2_is_0)
  moreover have "Weekday (lastWeekday d t) = weekday_index d"
    using weekday_index_range [of d]
    by (simp only: lastWeekday_eq Weekday_times_Day back_steps)
  ultimately show ?thesis
    by (simp add: midnight_on_def)
qed

lemma nextWeekday_midnight_on: "midnight_on d (nextWeekday d t)"
proof -
  have "nextWeekday d t mod Day = 0"
    by (simp only: nextWeekday_eq mod_mult_self2_is_0)
  moreover have "Weekday (nextWeekday d t) = weekday_index d"
    using weekday_index_range [of d]
    by (simp only: nextWeekday_eq Weekday_times_Day forward_steps)
  ultimately show ?thesis
    by (simp add: midnight_on_def)
qed

lemma lastWeekday_bounds:
  "truncateDay t - 7 * Day \<le> lastWeekday d t \<and> lastWeekday d t < truncateDay t"
proof -
  define k where "k = (if (Weekday t - weekday_index d) mod 7 = 0 then 7
                       else (Weekday t - weekday_index d) mod 7)"
  have "0 \<le> (Weekday t - weekday_index d) mod 7" "(Weekday t - weekday_index d) mod 7 < 7"
    by simp_all
  then have k: "1 \<le> k" "k \<le> 7"
    by (auto simp add: k_def)
  have eq: "lastWeekday d t = truncateDay t - k * Day"
    by (simp add: lastWeekday_def k_def Let_def)
  have "k * Day \<le> 7 * Day"
    using k Day_pos by (simp add: mult_right_mono)
  moreover have "0 < k * Day"
    using k Day_pos by (simp add: mult_pos_pos)
  ultimately show ?thesis
    by (simp add: eq)
qed

lemma nextWeekday_bounds:
  "truncateDay t < nextWeekday d t \<and> nextWeekday d t \<le> truncateDay t + 7 * Day"
proof -
  define k where "k = (if (weekday_index d - Weekday t) mod 7 = 0 then 7
                       else (weekday_index d - Weekday t) mod 7)"
  have "0 \<le> (weekday_index d - Weekday t) mod 7" "(weekday_index d - Weekday t) mod 7 < 7"
    by simp_all
  then have k: "1 \<le> k" "k \<le> 7"
    by (auto simp add: k_def)
  have eq: "nextWeekday d t = truncateDay t + k * Day"
    by (simp add: nextWeekday_def k_def Let_def)
  have "k * Day \<le> 7 * Day"
    using k Day_pos by (simp add: mult_right_mono)
  moreover have "0 < k * Day"
    using k Day_pos by (simp add: mult_pos_pos)
  ultimately show ?thesis
    by (simp add: eq)
qed

section \<open>The default configuration at concrete instants\<close>

lemma getEnv_defaults:
  "getEnv ''WORK_WEEK_START'' ''Monday'' (world_at t) = ''Monday''"
  "getEnv ''WORK_WEEK_END'' ''Friday'' (world_at t) = ''Friday''"
  "Atoi_value (getEnv ''WORK_DAY_START'' ''8'' (world_at t)) = 8"
  "Atoi_value (getEnv ''WORK_DAY_END'' ''18'' (world_at t)) = 18"
  by (simp_all add: getEnv_def world_at_def Atoi_value_def is_digit_def digits_val_def
      digit_val_def)

lemma Getenv_phone: "Getenv ''MY_PHONE_NUMBER'' (world_at t) = ''+15550100''"
  by (simp add: Getenv_def world_at_def)

lemma during_wednesday_noon:
  "isDuringBusinessHours ''Monday'' ''Friday'' 8 18 (world_at (at_clock 6 12 0)) =
     (Inr False, world_at (at_clock 6 12 0))"
  by (simp add: isDuringBusinessHours_default world_at_def calendar_defs)

lemma during_wednesday_early:
  "isDuringBusinessHours ''Monday'' ''Friday'' 8 18 (world_at (at_clock 6 7 59)) =
     (Inr True, world_at (at_clock 6 7 59))"
  by (simp add: isDuringBusinessHours_default world_at_def calendar_defs)



section \<open>Reading the hour settings\<close>







section \<open>The polarity of the evaluator's result\<close>

text \<open>
  Claim C1 (the code departs from it). A call that arrives inside the business-hours
  window should get the Dial markup and a call outside it the Record markup. With the
  default window, Monday to Friday from 8 to 18, the handler does the opposite: on
  Wednesday at 12:00 it asks \<open>twiml.Voice\<close> for the Record verb, and on Wednesday at
  07:59 for the Dial and Say verbs.
\<close>

theorem handleCallRequest_routes_inverted:
  "handleCallRequest d rw r (world_at (at_clock 6 12 0)) =
     (case Voice d [VoiceRecord ''#'' ''300'' ''10'' ''true'' ''/sms''] of
        (twimlResult, err) \<Rightarrow>
          (Write twimlResult
             (if err = None
              then appError d ''could not record voice call. reason: %!s(<nil>)''
                     (Header_Add ''Content-Type'' ''application/xml'' rw)
              else Header_Add ''Content-Type'' ''application/xml'' rw),
           world_at (at_clock 6 12 0)))
   \<and> handleCallRequest d rw r (world_at (at_clock 6 7 59)) =
     (case Voice d [VoiceDial ''+15550100'',
                    VoiceSay ''Sorry, I was unable to redirect you. Goodbye.''] of
        (twimlResult, err) \<Rightarrow>
          (Write twimlResult
             (if err = None
              then appError d ''could not redirect call. reason: %!s(<nil>)''
                     (Header_Add ''Content-Type'' ''application/xml'' rw)
              else Header_Add ''Content-Type'' ''application/xml'' rw),
           world_at (at_clock 6 7 59)))"
  by (simp add: handleCallRequest_def getEnv_defaults during_wednesday_noon
      during_wednesday_early Getenv_phone Let_def fmt_s_def split: prod.splits)

text \<open>
  Claim C2 (the code departs from it). The evaluator should return true exactly when
  the instant is neither before \<open>weekStart\<close>, after \<open>weekEnd\<close>, before \<open>dayStart\<close> nor
  after \<open>dayEnd\<close>. On Wednesday at 12:00 with the window Monday to Friday, 8 to 18,
  the reference points are Monday 08:00, Friday 18:00, Wednesday 08:00 and Wednesday
  18:00, the instant is within all four, and \<open>isDuringBusinessHours\<close> returns false.
\<close>

theorem isDuringBusinessHours_false_within_bounds:
  "referencePoints ''Monday'' ''Friday'' 8 18 (at_clock 6 12 0) =
     Inr (at_clock 4 8 0, at_clock 8 18 0, at_clock 6 8 0, at_clock 6 18 0)
   \<and> fst (isDuringBusinessHours ''Monday'' ''Friday'' 8 18 (world_at (at_clock 6 12 0))) =
       Inr False"
  by (simp add: referencePoints_default isDuringBusinessHours_default world_at_def
      calendar_defs)

text \<open>
  Claim C4 (the code departs from it). For the window Monday to Friday, 8 to 18, the
  claim expects inside, outside, outside, inside, outside at Wednesday 12:00, Saturday
  12:00, Wednesday 07:59, Wednesday 18:00 and Wednesday 18:01. \<open>isDuringBusinessHours\<close>
  returns false, false, true, false, true there.
\<close>

theorem isDuringBusinessHours_monday_friday_8_18:
  "fst (isDuringBusinessHours ''Monday'' ''Friday'' 8 18 (world_at (at_clock 6 12 0))) = Inr False
   \<and> fst (isDuringBusinessHours ''Monday'' ''Friday'' 8 18 (world_at (at_clock 9 12 0))) = Inr False
   \<and> fst (isDuringBusinessHours ''Monday'' ''Friday'' 8 18 (world_at (at_clock 6 7 59))) = Inr True
   \<and> fst (isDuringBusinessHours ''Monday'' ''Friday'' 8 18 (world_at (at_clock 6 18 0))) = Inr False
   \<and> fst (isDuringBusinessHours ''Monday'' ''Friday'' 8 18 (world_at (at_clock 6 18 1))) = Inr True"
  by (simp add: isDuringBusinessHours_default world_at_def calendar_defs)

text \<open>
  Claim C7 (the code departs from it). An instant before \<open>dayStart\<close> or after \<open>dayEnd\<close>
  should evaluate to outside business hours. On Wednesday at 03:00 and at 20:00, with
  the window Monday to Friday, 8 to 18, \<open>isDuringBusinessHours\<close> returns true.
\<close>

theorem isDuringBusinessHours_true_off_hours:
  "fst (isDuringBusinessHours ''Monday'' ''Friday'' 8 18 (world_at (at_clock 6 3 0))) = Inr True
   \<and> fst (isDuringBusinessHours ''Monday'' ''Friday'' 8 18 (world_at (at_clock 6 20 0))) = Inr True"
  by (simp add: isDuringBusinessHours_default world_at_def calendar_defs)

section \<open>The reference points and totality on a well-formed window\<close>

text \<open>
  Claim C3, as the claim states it: \<open>weekStart\<close> would be the most recent occurrence
  of the start day at midnight, plus the start hour. On Monday at 12:00 with a window
  that starts on Monday at 8, the most recent Monday midnight is the one that started
  the current day; the evaluator's \<open>weekStart\<close> is 08:00 of the Monday a week before.
\<close>

theorem weekStart_on_start_day_is_a_week_back:
  "referencePoints ''Monday'' ''Friday'' 8 18 (at_clock 4 12 0) =
     Inr (at_clock (- 3) 8 0, at_clock 8 18 0, at_clock 4 8 0, at_clock 4 18 0)
   \<and> midnight_on Monday (at_clock 4 0 0)
   \<and> at_clock (- 3) 0 0 < at_clock 4 0 0
   \<and> at_clock 4 0 0 \<le> at_clock 4 12 0
   \<and> at_clock (- 3) 8 0 \<noteq> at_clock 4 0 0 + 8 * Hour"
  by (simp add: referencePoints_default midnight_on_def calendar_defs)

text \<open>
  Claim C3, amended. For every instant and every window with weekdays \<open>sd\<close>, \<open>ed\<close> and
  hours from 0 to 23, the evaluator computes these four reference points: \<open>weekStart\<close>
  is the midnight that starts the most recent \<open>sd\<close> strictly before the current day
  (at most seven days before today's midnight; when the current day is itself an
  \<open>sd\<close>, the one seven days earlier) plus \<open>dayStart\<close> hours; \<open>weekEnd\<close> is the midnight
  that starts the next \<open>ed\<close> strictly after the current day (at most seven days after
  today's midnight; when the current day is itself an \<open>ed\<close>, the one seven days later)
  plus \<open>dayEnd\<close> hours; \<open>dayStart\<close> and \<open>dayEnd\<close> are the midnight that starts the
  current day plus the respective hours.
\<close>

theorem referencePoints_as_specified:
  assumes "0 \<le> dayStart" "dayStart \<le> 23" "0 \<le> dayEnd" "dayEnd \<le> 23"
  shows "referencePoints (weekday_name sd) (weekday_name ed) dayStart dayEnd now =
           Inr (lastWeekday sd now + dayStart * Hour, nextWeekday ed now + dayEnd * Hour,
                truncateDay now + dayStart * Hour, truncateDay now + dayEnd * Hour)
     \<and> truncateDay now mod Day = 0 \<and> truncateDay now \<le> now \<and> now < truncateDay now + Day
     \<and> midnight_on sd (lastWeekday sd now)
     \<and> truncateDay now - 7 * Day \<le> lastWeekday sd now \<and> lastWeekday sd now < truncateDay now
     \<and> midnight_on ed (nextWeekday ed now)
     \<and> truncateDay now < nextWeekday ed now \<and> nextWeekday ed now \<le> truncateDay now + 7 * Day"
  using referencePoints_wellformed [OF assms, of sd ed now] truncateDay_bounds [of now]
    lastWeekday_midnight_on [of sd now] lastWeekday_bounds [of now sd]
    nextWeekday_midnight_on [of ed now] nextWeekday_bounds [of now ed]
  by simp

text \<open>
  On Monday at 12:00 with a window from Monday 8 to Monday 18, the current day being
  both the start and the end day: Monday 08:00 a week before, Monday 18:00 a week
  after, and 08:00 and 18:00 of the current day.
\<close>

theorem referencePoints_as_specified_witness:
  "(0::int) \<le> 8 \<and> (8::int) \<le> 23 \<and> (0::int) \<le> 18 \<and> (18::int) \<le> 23
   \<and> referencePoints ''Monday'' ''Monday'' 8 18 (at_clock 4 12 0) =
       Inr (at_clock (- 3) 8 0, at_clock 11 18 0, at_clock 4 8 0, at_clock 4 18 0)
   \<and> midnight_on Monday (at_clock (- 3) 0 0) \<and> midnight_on Monday (at_clock 11 0 0)
   \<and> at_clock (- 3) 0 0 < at_clock 4 0 0 \<and> at_clock 4 0 0 < at_clock 11 0 0"
proof -
  have h: "(0::int) \<le> 8" "(8::int) \<le> 23" "(0::int) \<le> 18" "(18::int) \<le> 23"
    by simp_all
  have l: "lastWeekday Monday (at_clock 4 12 0) = at_clock (- 3) 0 0"
    by (simp add: calendar_defs)
  have n: "nextWeekday Monday (at_clock 4 12 0) = at_clock 11 0 0"
    by (simp add: calendar_defs)
  have t: "truncateDay (at_clock 4 12 0) = at_clock 4 0 0"
    by (simp add: calendar_defs)
  have a: "at_clock (- 3) 0 0 + 8 * Hour = at_clock (- 3) 8 0"
    "at_clock 11 0 0 + 18 * Hour = at_clock 11 18 0"
    "at_clock 4 0 0 + 8 * Hour = at_clock 4 8 0"
    "at_clock 4 0 0 + 18 * Hour = at_clock 4 18 0"
    by (simp_all add: at_clock_def)
  have o: "at_clock (- 3) 0 0 < at_clock 4 0 0" "at_clock 4 0 0 < at_clock 11 0 0"
    by (simp_all add: at_clock_def Day_def Hour_def)
  show ?thesis
    using o referencePoints_as_specified [OF h, of Monday Monday "at_clock 4 12 0"]
    by (simp add: l n t a)
qed

text \<open>
  Claim C5. For a weekday name at each end of the window and hours from 0 to 23, the
  evaluator does not fail: it returns a boolean and no error, whatever the instant.
\<close>

theorem isDuringBusinessHours_never_fails:
  assumes "0 \<le> dayStart" "dayStart \<le> 23" "0 \<le> dayEnd" "dayEnd \<le> 23"
  shows "\<exists>b. isDuringBusinessHours (weekday_name sd) (weekday_name ed) dayStart dayEnd w
              = (Inr b, w)"
  by (simp add: isDuringBusinessHours_def Let_def referencePoints_wellformed [OF assms])

theorem isDuringBusinessHours_never_fails_witness:
  "(0::int) \<le> 8 \<and> (8::int) \<le> 23 \<and> (0::int) \<le> 18 \<and> (18::int) \<le> 23
   \<and> (\<exists>b. isDuringBusinessHours ''Monday'' ''Friday'' 8 18 (world_at (at_clock 6 12 0))
              = (Inr b, world_at (at_clock 6 12 0)))"
proof -
  have h: "(0::int) \<le> 8" "(8::int) \<le> 23" "(0::int) \<le> 18" "(18::int) \<le> 23"
    by simp_all
  show ?thesis
    using isDuringBusinessHours_never_fails [OF h, of Monday Friday "world_at (at_clock 6 12 0)"]
    by simp
qed

section \<open>Where a malformed configuration is noticed\<close>




section \<open>The evaluator reads the clock and changes nothing\<close>

text \<open>
  Claim C8. The evaluation is a function of the instant and the window alone: two
  evaluations with the same clock reading and the same four arguments return the same
  result, whatever else differs in the ambient state (environment, output), and the
  evaluation leaves that state as it found it.
\<close>

theorem isDuringBusinessHours_pure:
  "clock w = clock w' \<Longrightarrow>
     fst (isDuringBusinessHours weekStart weekEnd dayStart dayEnd w) =
       fst (isDuringBusinessHours weekStart weekEnd dayStart dayEnd w')
     \<and> snd (isDuringBusinessHours weekStart weekEnd dayStart dayEnd w) = w"
  by (simp add: isDuringBusinessHours_def Let_def)

theorem isDuringBusinessHours_pure_witness:
  "clock (world_at (at_clock 6 12 0)) =
     clock ((world_at (at_clock 6 12 0))\<lparr>environ := [''WORK_WEEK_START'' \<mapsto> ''Sunday''],
                                        stdout := [''Starting server on :8080'']\<rparr>)
   \<and> fst (isDuringBusinessHours ''Monday'' ''Friday'' 8 18 (world_at (at_clock 6 12 0))) =
       fst (isDuringBusinessHours ''Monday'' ''Friday'' 8 18
             ((world_at (at_clock 6 12 0))\<lparr>environ := [''WORK_WEEK_START'' \<mapsto> ''Sunday''],
                                          stdout := [''Starting server on :8080'']\<rparr>))
   \<and> snd (isDuringBusinessHours ''Monday'' ''Friday'' 8 18 (world_at (at_clock 6 12 0))) =
       world_at (at_clock 6 12 0)"
proof -
  have same: "clock (world_at (at_clock 6 12 0)) =
     clock ((world_at (at_clock 6 12 0))\<lparr>environ := [''WORK_WEEK_START'' \<mapsto> ''Sunday''],
                                        stdout := [''Starting server on :8080'']\<rparr>)"
    by simp
  show ?thesis
    using same isDuringBusinessHours_pure [OF same, of "''Monday''" "''Friday''" 8 18]
    by simp
qed

section \<open>The error checks of the two handlers\<close>

text \<open>
  Claim C9. In \<open>handleCallRequest\<close>, once the evaluation has returned a boolean, the
  status-400 JSON error body of \<open>appError\<close> is written exactly when \<open>twiml.Voice\<close>
  returns no error, and the markup then follows the error body; when \<open>twiml.Voice\<close>
  returns an error, nothing reports it: the status is 200 and the body is the result
  string alone.
\<close>

theorem handleCallRequest_error_iff_markup_ok:
  assumes ev: "fst (isDuringBusinessHours
                 (getEnv ''WORK_WEEK_START'' ''Monday'' w) (getEnv ''WORK_WEEK_END'' ''Friday'' w)
                 (Atoi_value (getEnv ''WORK_DAY_START'' ''8'' w))
                 (Atoi_value (getEnv ''WORK_DAY_END'' ''18'' w)) w) = Inr b"
    and markup: "Voice d (if b then [VoiceDial (Getenv ''MY_PHONE_NUMBER'' w),
                                    VoiceSay ''Sorry, I was unable to redirect you. Goodbye.'']
                         else [VoiceRecord ''#'' ''300'' ''10'' ''true'' ''/sms'']) =
                   (twimlResult, err)"
    and fresh: "status rw = None"
  shows "(status (fst (handleCallRequest d rw r w)) = Some 400) = (err = None)
     \<and> status (fst (handleCallRequest d rw r w)) = Some (if err = None then 400 else 200)
     \<and> body (fst (handleCallRequest d rw r w)) =
         body rw
         @ (if err = None
            then ErrorJSON_Error d
                   [\<lparr>Detail = (if b then ''could not redirect call. reason: ''
                                else ''could not record voice call. reason: '') @ ''%!s(<nil>)'',
                     Code = ''400'', Title = ''Something went wrong'', HttpStatus = 400\<rparr>]
                 @ [CHR 0x0A]
            else [])
         @ twimlResult"
proof -
  obtain res w1 where call: "isDuringBusinessHours
                 (getEnv ''WORK_WEEK_START'' ''Monday'' w) (getEnv ''WORK_WEEK_END'' ''Friday'' w)
                 (Atoi_value (getEnv ''WORK_DAY_START'' ''8'' w))
                 (Atoi_value (getEnv ''WORK_DAY_END'' ''18'' w)) w = (res, w1)"
    by (cases "isDuringBusinessHours
                 (getEnv ''WORK_WEEK_START'' ''Monday'' w) (getEnv ''WORK_WEEK_END'' ''Friday'' w)
                 (Atoi_value (getEnv ''WORK_DAY_START'' ''8'' w))
                 (Atoi_value (getEnv ''WORK_DAY_END'' ''18'' w)) w") simp
  have res: "res = Inr b"
    using ev call by simp
  have w1: "w1 = w"
    using isDuringBusinessHours_snd [of "getEnv ''WORK_WEEK_START'' ''Monday'' w"
        "getEnv ''WORK_WEEK_END'' ''Friday'' w" "Atoi_value (getEnv ''WORK_DAY_START'' ''8'' w)"
        "Atoi_value (getEnv ''WORK_DAY_END'' ''18'' w)" w] call
    by simp
  show ?thesis
  proof (cases b)
    case True
    then show ?thesis
      using markup fresh
      by (simp add: handleCallRequest_def call res w1 Let_def appError_def http_Error_def
          Write_def WriteHeader_def Header_Set_def Header_Add_def fmt_s_def Itoa_400)
  next
    case False
    then show ?thesis
      using markup fresh
      by (simp add: handleCallRequest_def call res w1 Let_def appError_def http_Error_def
          Write_def WriteHeader_def Header_Set_def Header_Add_def fmt_s_def Itoa_400)
  qed
qed

text \<open>
  On Wednesday at 12:00: with markup generation succeeding the answer is status 400,
  the error body and then the markup; with markup generation failing it is status 200
  and an empty body.
\<close>

theorem handleCallRequest_error_iff_markup_ok_witness:
  "status (fst (handleCallRequest example_deps new_response empty_request
                  (world_at (at_clock 6 12 0)))) = Some 400
   \<and> body (fst (handleCallRequest example_deps new_response empty_request
                  (world_at (at_clock 6 12 0)))) =
       ''could not record voice call. reason: %!s(<nil>)'' @ [CHR 0x0A] @ ''<Record/>''
   \<and> status (fst (handleCallRequest broken_markup_deps new_response empty_request
                  (world_at (at_clock 6 12 0)))) = Some 200
   \<and> body (fst (handleCallRequest broken_markup_deps new_response empty_request
                  (world_at (at_clock 6 12 0)))) = []"
proof -
  have ev: "fst (isDuringBusinessHours
                 (getEnv ''WORK_WEEK_START'' ''Monday'' (world_at (at_clock 6 12 0)))
                 (getEnv ''WORK_WEEK_END'' ''Friday'' (world_at (at_clock 6 12 0)))
                 (Atoi_value (getEnv ''WORK_DAY_START'' ''8'' (world_at (at_clock 6 12 0))))
                 (Atoi_value (getEnv ''WORK_DAY_END'' ''18'' (world_at (at_clock 6 12 0))))
                 (world_at (at_clock 6 12 0))) = Inr False"
    by (simp add: getEnv_defaults during_wednesday_noon)
  have ok: "Voice example_deps
              (if False then [VoiceDial (Getenv ''MY_PHONE_NUMBER'' (world_at (at_clock 6 12 0))),
                              VoiceSay ''Sorry, I was unable to redirect you. Goodbye.'']
               else [VoiceRecord ''#'' ''300'' ''10'' ''true'' ''/sms'']) = (''<Record/>'', None)"
    by (simp add: example_deps_def)
  have broken: "Voice broken_markup_deps
              (if False then [VoiceDial (Getenv ''MY_PHONE_NUMBER'' (world_at (at_clock 6 12 0))),
                              VoiceSay ''Sorry, I was unable to redirect you. Goodbye.'']
               else [VoiceRecord ''#'' ''300'' ''10'' ''true'' ''/sms'']) =
                 ([], Some ''xml: unsupported'')"
    by (simp add: broken_markup_deps_def example_deps_def)
  have fresh: "status new_response = None" "body new_response = []"
    by (simp_all add: new_response_def)
  have json: "ErrorJSON_Error example_deps
                [\<lparr>Detail = ''could not record voice call. reason: %!s(<nil>)'', Code = ''400'',
                  Title = ''Something went wrong'', HttpStatus = 400\<rparr>] =
              ''could not record voice call. reason: %!s(<nil>)''"
    by (simp add: example_deps_def)
  show ?thesis
    using handleCallRequest_error_iff_markup_ok [OF ev ok fresh(1), of empty_request]
      handleCallRequest_error_iff_markup_ok [OF ev broken fresh(1), of empty_request]
    by (simp add: fresh json)
qed

text \<open>
  Claim C10. Whatever error \<open>CreateMessage\<close> returns, \<open>sendVoiceRecording\<close> goes on
  to dereference \<open>resp.Status\<close>: the error only adds a line to standard output. The
  handler completes, writing one of its two messages chosen by the status, exactly
  when the returned message and its \<open>Status\<close> are both non-nil; otherwise it panics.
\<close>

theorem sendVoiceRecording_needs_status:
  assumes sent: "CreateMessage d
                   \<lparr>Username = Getenv ''TWILIO_ACCOUNT_SID'' w,
                    Password = Getenv ''TWILIO_AUTH_TOKEN'' w\<rparr>
                   \<lparr>To = Getenv ''MY_PHONE_NUMBER'' w, From = FormValue r ''from'',
                    Body = FormValue r ''transcription_text''\<rparr> = (resp, err)"
  shows "(\<exists>rw'. fst (sendVoiceRecording d rw r w) = Inr rw') =
           (\<exists>m st. resp = Some m \<and> Status m = Some st)
     \<and> fst (sendVoiceRecording d rw r w) =
         (case resp of
            None \<Rightarrow> Inl NilPointerDereference
          | Some m \<Rightarrow>
              (case Status m of
                 None \<Rightarrow> Inl NilPointerDereference
               | Some st \<Rightarrow>
                   Inr (Write
                     (if st = ''cancelled'' \<or> st = ''failed'' \<or> st = ''undelivered''
                      then ''Something went wrong sending the SMS with the voice recording transcript.''
                      else ''The SMS with the voice recording transcript was sent successfully.'')
                     rw)))
     \<and> snd (sendVoiceRecording d rw r w) =
         (case err of
            None \<Rightarrow> w
          | Some e \<Rightarrow> w\<lparr>stdout := stdout w @ [''Error sending SMS message: '' @ e]\<rparr>)"
  using sent
  by (auto simp add: sendVoiceRecording_def Let_def split: option.splits)

text \<open>
  With an error and a failed message the handler writes its failure message; with an
  error and no message it panics.
\<close>

theorem sendVoiceRecording_needs_status_witness:
  "fst (sendVoiceRecording example_deps new_response empty_request (world_at 0)) =
     Inr \<lparr>header = Map.empty, status = Some 200,
          body = ''Something went wrong sending the SMS with the voice recording transcript.''\<rparr>
   \<and> stdout (snd (sendVoiceRecording example_deps new_response empty_request (world_at 0))) =
       [''Error sending SMS message: timeout'']
   \<and> fst (sendVoiceRecording no_message_deps new_response empty_request (world_at 0)) =
     Inl NilPointerDereference"
proof -
  have sent: "CreateMessage example_deps
                   \<lparr>Username = Getenv ''TWILIO_ACCOUNT_SID'' (world_at 0),
                    Password = Getenv ''TWILIO_AUTH_TOKEN'' (world_at 0)\<rparr>
                   \<lparr>To = Getenv ''MY_PHONE_NUMBER'' (world_at 0),
                    From = FormValue empty_request ''from'',
                    Body = FormValue empty_request ''transcription_text''\<rparr> =
                 (Some \<lparr>Status = Some ''failed''\<rparr>, Some ''timeout'')"
    by (simp add: example_deps_def)
  have lost: "CreateMessage no_message_deps
                   \<lparr>Username = Getenv ''TWILIO_ACCOUNT_SID'' (world_at 0),
                    Password = Getenv ''TWILIO_AUTH_TOKEN'' (world_at 0)\<rparr>
                   \<lparr>To = Getenv ''MY_PHONE_NUMBER'' (world_at 0),
                    From = FormValue empty_request ''from'',
                    Body = FormValue empty_request ''transcription_text''\<rparr> =
                 (None, Some ''timeout'')"
    by (simp add: no_message_deps_def example_deps_def)
  show ?thesis
    using sendVoiceRecording_needs_status [OF sent, of new_response]
      sendVoiceRecording_needs_status [OF lost, of new_response]
    by (simp add: Write_def WriteHeader_def new_response_def world_at_def)
qed

end
